theory Spec2Isabelle
  imports Main
begin

text \<open>
  The points and badges service of the Hammamet challenge platform
  (\<^verbatim>\<open>backend/src/services/gamification.service.ts\<close>) over the storage calls it makes
  (\<^verbatim>\<open>backend/src/services/firebase.service.ts\<close>), as functions on an explicit store.
  Calls are sequential: one call runs to its end before the next starts.
\<close>

section \<open>Data model\<close>

text \<open>
  The documents of the three Firestore collections the gamification service touches
  (\<^verbatim>\<open>users\<close>, \<^verbatim>\<open>submissions\<close>, \<^verbatim>\<open>badges\<close>), with the fields of the
  interfaces \<^verbatim>\<open>User\<close>, \<^verbatim>\<open>Submission\<close> and \<^verbatim>\<open>Badge\<close> that the service and
  the registration route read or write. A field that a document may lack, or a property that
  may be \<^verbatim>\<open>undefined\<close>, is an \<^typ>\<open>'a option\<close>. The registration route writes
  \<^verbatim>\<open>points\<close> and \<^verbatim>\<open>level\<close> but no \<^verbatim>\<open>totalPoints\<close>, so that field is
  optional, and \<^verbatim>\<open>awardPoints\<close> reads both counters through \<^verbatim>\<open>|| 0\<close>.

  A JavaScript \<^verbatim>\<open>number\<close> holding points or a score is an \<^typ>\<open>int\<close>: the integers
  among the doubles. Their sum is rounded as a double is, see \<open>js_add\<close> below.
\<close>

datatype role = Citizen | Business | Admin

datatype status = Pending | Approved | Rejected

record user =
  uid :: string
  email :: string
  username :: string
  displayName :: "string option"
  photoURL :: "string option"
  profileImage :: "string option"
  location :: "string option"
  role :: role
  points :: "int option"
  totalPoints :: "int option"
  level :: int
  badges :: "string list"
  createdAt :: string
  updatedAt :: string

record submission =
  sub_userId :: string
  challengeId :: string
  status :: status
  score :: "int option"

text \<open>
  The object \<^verbatim>\<open>createBadge\<close> hands to Firestore: \<^verbatim>\<open>userId\<close>, \<^verbatim>\<open>type\<close>,
  \<^verbatim>\<open>metadata\<close> (an object of properties, or \<^verbatim>\<open>undefined\<close>) and \<^verbatim>\<open>createdAt\<close>.
\<close>

record badge =
  badge_userId :: string
  type :: string
  metadata :: "(string \<times> string) list option"
  badge_createdAt :: string

text \<open>
  The store: the three collections, the clock that \<^verbatim>\<open>new Date().toISOString()\<close> reads,
  and a schedule of the outcomes of the coming Firestore requests (\<^term>\<open>True\<close>: the request
  is rejected; an exhausted schedule: every further request is answered). Collections
  queried by a field are lists in creation order; the users collection is keyed by
  document id.
\<close>

record store =
  users :: "string \<rightharpoonup> user"
  col_submissions :: "submission list"
  col_badges :: "badge list"
  now :: string
  faults :: "bool list"

text \<open>
  The error kinds: the four of the specification's taxonomy, and the error the Firestore
  client throws when it refuses a document. The service raises
  \<^verbatim>\<open>Error('User not found')\<close> (\<open>UserNotFound\<close>) and passes on what a rejected
  Firestore request throws (\<open>PersistenceError\<close>); nothing in the source raises
  \<open>UserNotRanked\<close> or \<open>InvalidLeaderboardType\<close>.
\<close>

datatype error =
  UserNotFound | PersistenceError | UserNotRanked | InvalidLeaderboardType | InvalidDocument

type_synonym 'a io = "store \<Rightarrow> (error + 'a) \<times> store"

section \<open>Numbers\<close>

text \<open>
  \<^verbatim>\<open>a + b\<close> on two integer-valued doubles is the exact sum rounded to the nearest
  double, ties to the even significand. An integer of magnitude below \<open>2^53\<close> is a
  double; a larger one keeps its 53 leading bits. (A sum of magnitude \<open>2^1024\<close> or more is
  \<^verbatim>\<open>Infinity\<close> in JavaScript; no statement below reaches that far.)
\<close>

function bit_length :: "int \<Rightarrow> nat" where
  "bit_length n = (if n \<le> 0 then 0 else Suc (bit_length (n div 2)))"
  by pat_completeness auto
termination
  by (relation "measure nat") auto

definition to_double :: "int \<Rightarrow> int" where
  "to_double n =
     (if \<bar>n\<bar> < 2 ^ 53 then n
      else
        (let m = \<bar>n\<bar>;
             k = bit_length m - 53;
             q = m div 2 ^ k;
             r = m mod 2 ^ k;
             half = 2 ^ (k - 1);
             q' = (if half < r \<or> (r = half \<and> odd q) then q + 1 else q)
         in sgn n * (q' * 2 ^ k)))"

definition js_add :: "int \<Rightarrow> int \<Rightarrow> int" where
  "js_add a b = to_double (a + b)"

section \<open>Sequencing of awaited calls\<close>

text \<open>
  \<^verbatim>\<open>const x = await m; rest\<close>: when \<^verbatim>\<open>m\<close> rejects, the rest is skipped and the
  rejection travels on; the store keeps what was written before.
\<close>

definition andThen :: "'a io \<Rightarrow> ('a \<Rightarrow> 'b io) \<Rightarrow> 'b io" where
  "andThen m f s = (case m s of (Inl e, s') \<Rightarrow> (Inl e, s') | (Inr x, s') \<Rightarrow> f x s')"

definition resolve :: "'a \<Rightarrow> 'a io" where
  "resolve x s = (Inr x, s)"

definition throw :: "error \<Rightarrow> 'a io" where
  "throw e s = (Inl e, s)"

section \<open>FirebaseService\<close>

text \<open>The calls of \<^verbatim>\<open>backend/src/services/firebase.service.ts\<close> that the service uses.\<close>

text \<open>
  One Firestore request: it takes the next outcome of the schedule; a rejected request
  throws and leaves the collections as they were.
\<close>

definition rejected :: "store \<Rightarrow> bool" where
  "rejected s = (case faults s of [] \<Rightarrow> False | f # fs \<Rightarrow> f)"

definition tick :: "store \<Rightarrow> store" where
  "tick s = s\<lparr>faults := (case faults s of [] \<Rightarrow> [] | f # fs \<Rightarrow> fs)\<rparr>"

definition firestore :: "(store \<Rightarrow> (error + 'a) \<times> store) \<Rightarrow> 'a io" where
  "firestore act s = (if rejected s then (Inl PersistenceError, tick s) else act (tick s))"

text \<open>\<^verbatim>\<open>getUser\<close>: the document, or \<^verbatim>\<open>null\<close> when it does not exist.\<close>

definition getUser :: "string \<Rightarrow> user option io" where
  "getUser userId = firestore (\<lambda>s. (Inr (users s userId), s))"

text \<open>
  \<^verbatim>\<open>Partial<User>\<close> as \<^verbatim>\<open>awardPoints\<close> builds it: the two counters.
  \<^verbatim>\<open>updateUser\<close> merges the given fields and a fresh \<^verbatim>\<open>updatedAt\<close> into the document;
  Firestore's \<^verbatim>\<open>update\<close> rejects when the document does not exist.
\<close>

record user_updates =
  upd_points :: int
  upd_totalPoints :: int

definition merge_updates :: "user_updates \<Rightarrow> string \<Rightarrow> user \<Rightarrow> user" where
  "merge_updates updates t u =
     u\<lparr>points := Some (upd_points updates),
       totalPoints := Some (upd_totalPoints updates),
       updatedAt := t\<rparr>"

definition updateUser :: "string \<Rightarrow> user_updates \<Rightarrow> unit io" where
  "updateUser userId updates =
     firestore (\<lambda>s. case users s userId of
                       None \<Rightarrow> (Inl PersistenceError, s)
                     | Some u \<Rightarrow>
                         (Inr (), s\<lparr>users := (users s)(userId \<mapsto> merge_updates updates (now s) u)\<rparr>))"

text \<open>
  \<^verbatim>\<open>getUserSubmissions\<close>, \<^verbatim>\<open>getUserBadges\<close>: the documents of the user, newest
  first (\<^verbatim>\<open>orderBy('createdAt', 'desc')\<close> over a collection kept in creation order).
\<close>

definition getUserSubmissions :: "string \<Rightarrow> submission list io" where
  "getUserSubmissions userId =
     firestore (\<lambda>s. (Inr (rev (filter (\<lambda>d. sub_userId d = userId) (col_submissions s))), s))"

definition getUserBadges :: "string \<Rightarrow> badge list io" where
  "getUserBadges userId =
     firestore (\<lambda>s. (Inr (rev (filter (\<lambda>d. badge_userId d = userId) (col_badges s))), s))"

text \<open>
  \<^verbatim>\<open>createBadge\<close> hands \<^verbatim>\<open>{ ...badgeData, createdAt }\<close> to \<^verbatim>\<open>add\<close> and returns
  the id of the new document (here: its position in the collection). The client checks the
  object before it sends anything: a property whose value is \<^verbatim>\<open>undefined\<close> makes
  \<^verbatim>\<open>add\<close> throw, unless the client was set up with \<^verbatim>\<open>ignoreUndefinedProperties\<close>,
  and \<^verbatim>\<open>config/firebase-admin.ts\<close> takes \<^verbatim>\<open>admin.firestore()\<close> as it comes.
  \<^verbatim>\<open>awardBadge(userId, badgeType, metadata?)\<close> passes its three parameters on as
  \<^verbatim>\<open>{ userId, type: badgeType, metadata }\<close>.
\<close>

definition createBadge :: "badge \<Rightarrow> nat io" where
  "createBadge badgeData =
     (if metadata badgeData = None then throw InvalidDocument
      else firestore (\<lambda>s. (Inr (length (col_badges s)),
                           s\<lparr>col_badges := col_badges s @ [badgeData\<lparr>badge_createdAt := now s\<rparr>]\<rparr>)))"

definition awardBadge :: "string \<Rightarrow> string \<Rightarrow> (string \<times> string) list option \<Rightarrow> nat io" where
  "awardBadge userId badgeType meta =
     createBadge \<lparr>badge_userId = userId, type = badgeType, metadata = meta, badge_createdAt = []\<rparr>"

section \<open>GamificationService\<close>

text \<open>\<^verbatim>\<open>x || 0\<close> on a counter: a missing counter and the counter 0 both read as 0.\<close>

definition or_zero :: "int option \<Rightarrow> int" where
  "or_zero x = (case x of None \<Rightarrow> 0 | Some n \<Rightarrow> n)"

text \<open>
  \<^verbatim>\<open>awardPoints\<close> (\<^verbatim>\<open>Promise<void>\<close>): its \<^verbatim>\<open>catch\<close> logs and rethrows, so every
  error reaches the caller. The two cache invalidations after the write go through
  \<^verbatim>\<open>CacheService.del\<close> and \<^verbatim>\<open>delPattern\<close>, which catch their own errors and touch
  only the Redis cache: they neither throw nor change the store. The \<^verbatim>\<open>reason\<close> is only
  logged.
\<close>

definition awardPoints :: "string \<Rightarrow> int \<Rightarrow> string \<Rightarrow> unit io" where
  "awardPoints userId pts reason =
     andThen (getUser userId) (\<lambda>usr.
       case usr of
         None \<Rightarrow> throw UserNotFound
       | Some u \<Rightarrow>
           (let currentPoints = or_zero (points u);
                newPoints = js_add currentPoints pts
            in updateUser userId
                 \<lparr>upd_points = newPoints,
                  upd_totalPoints = js_add (or_zero (totalPoints u)) pts\<rparr>))"

text \<open>The badge types of \<^verbatim>\<open>BADGES\<close> that \<^verbatim>\<open>checkAndAwardBadges\<close> awards.\<close>

definition FIRST_STEPS :: string where "FIRST_STEPS = ''first_steps''"
definition EXPLORER :: string where "EXPLORER = ''explorer''"
definition ADVENTURER :: string where "ADVENTURER = ''adventurer''"
definition MASTER_EXPLORER :: string where "MASTER_EXPLORER = ''master_explorer''"
definition PHOTOGRAPHER :: string where "PHOTOGRAPHER = ''photographer''"
definition PERFECTIONIST :: string where "PERFECTIONIST = ''perfectionist''"

text \<open>\<^verbatim>\<open>s.score >= n\<close>: false for a submission without a score.\<close>

definition score_at_least :: "submission \<Rightarrow> int \<Rightarrow> bool" where
  "score_at_least d n = (case score d of None \<Rightarrow> False | Some v \<Rightarrow> n \<le> v)"

text \<open>
  One of the six blocks of \<^verbatim>\<open>checkAndAwardBadges\<close>,
  \<^verbatim>\<open>if (reached && !earnedBadgeTypes.includes(B)) { await awardBadge(userId, B); newBadges.push(B); }\<close>,
  as a function of the list \<^verbatim>\<open>newBadges\<close> built so far. The call passes no third
  argument, so \<^verbatim>\<open>metadata\<close> is \<^verbatim>\<open>undefined\<close>.
\<close>

definition grant :: "bool \<Rightarrow> string list \<Rightarrow> string \<Rightarrow> string \<Rightarrow> string list \<Rightarrow> string list io" where
  "grant reached earnedBadgeTypes userId badgeType newBadges =
     (if reached \<and> badgeType \<notin> set earnedBadgeTypes
      then andThen (awardBadge userId badgeType None) (\<lambda>_. resolve (newBadges @ [badgeType]))
      else resolve newBadges)"

text \<open>
  The \<^verbatim>\<open>try\<close> block of \<^verbatim>\<open>checkAndAwardBadges\<close>. The earned types are read once,
  before the six blocks. The final cache invalidation does not touch the store and
  cannot throw.
\<close>

definition try_checkAndAwardBadges :: "string \<Rightarrow> string list io" where
  "try_checkAndAwardBadges userId =
     andThen (getUser userId) (\<lambda>usr.
       case usr of
         None \<Rightarrow> resolve []
       | Some u \<Rightarrow>
           andThen (getUserBadges userId) (\<lambda>userBadges.
           andThen (getUserSubmissions userId) (\<lambda>subs.
             let earnedBadgeTypes = map type userBadges;
                 completedChallenges = length (filter (\<lambda>d. status d = Approved) subs);
                 approvedSubmissions = filter (\<lambda>d. status d = Approved) subs;
                 perfectSubmissions =
                   length (filter (\<lambda>d. score_at_least d 95) approvedSubmissions)
             in
             andThen (grant (1 \<le> completedChallenges) earnedBadgeTypes userId FIRST_STEPS []) (\<lambda>nb1.
             andThen (grant (5 \<le> completedChallenges) earnedBadgeTypes userId EXPLORER nb1) (\<lambda>nb2.
             andThen (grant (10 \<le> completedChallenges) earnedBadgeTypes userId ADVENTURER nb2) (\<lambda>nb3.
             andThen (grant (25 \<le> completedChallenges) earnedBadgeTypes userId MASTER_EXPLORER nb3) (\<lambda>nb4.
             andThen (grant (10 \<le> length approvedSubmissions) earnedBadgeTypes userId PHOTOGRAPHER nb4) (\<lambda>nb5.
             grant (5 \<le> perfectSubmissions) earnedBadgeTypes userId PERFECTIONIST nb5))))))))"

text \<open>
  \<^verbatim>\<open>checkAndAwardBadges\<close>: the \<^verbatim>\<open>catch\<close> logs the error and returns the empty
  list; what the \<^verbatim>\<open>try\<close> block wrote before the error stays written.
\<close>

definition checkAndAwardBadges :: "string \<Rightarrow> string list io" where
  "checkAndAwardBadges userId s =
     (case try_checkAndAwardBadges userId s of
        (Inl e, s') \<Rightarrow> (Inr [], s')
      | (Inr newBadges, s') \<Rightarrow> (Inr newBadges, s'))"

text \<open>\<^verbatim>\<open>getUserRank\<close>: the placeholder of the source, the same for every user.\<close>

record rank_info =
  rank :: int
  totalUsers :: int
  percentile :: int

definition getUserRank :: "string \<Rightarrow> rank_info io" where
  "getUserRank userId = resolve \<lparr>rank = 1, totalUsers = 100, percentile = 99\<rparr>"

section \<open>Registration\<close>

text \<open>
  The document \<^verbatim>\<open>userData\<close> that the route \<^verbatim>\<open>POST /api/auth/register\<close> (the
  authentication routes) stores for a new account, by its fields: \<^verbatim>\<open>role: 'citizen'\<close>, \<^verbatim>\<open>points: 0\<close>, \<^verbatim>\<open>level: 1\<close>, no badges, and no
  \<^verbatim>\<open>totalPoints\<close> field.
\<close>

definition userData :: "string \<Rightarrow> string \<Rightarrow> string \<Rightarrow> string option \<Rightarrow> string \<Rightarrow> user" where
  "userData firebaseUid mail name loc t =
     \<lparr>uid = firebaseUid, email = mail, username = name, displayName = Some name,
      photoURL = None, profileImage = None, location = loc, role = Citizen,
      points = Some 0, totalPoints = None, level = 1, badges = [],
      createdAt = t, updatedAt = t\<rparr>"

section \<open>Sequences of calls\<close>

text \<open>
  A caller making one \<^verbatim>\<open>awardPoints\<close> call after the other and going on whatever the
  outcome; the outcomes are kept in order.
\<close>

fun awardEach :: "(string \<times> int \<times> string) list \<Rightarrow> store \<Rightarrow> (error + unit) list \<times> store" where
  "awardEach [] s = ([], s)"
| "awardEach ((userId, pts, reason) # rest) s =
     (case awardPoints userId pts reason s of
        (r, s1) \<Rightarrow> (case awardEach rest s1 of (rs, s2) \<Rightarrow> (r # rs, s2)))"

text \<open>
  Any history of the badge collection: calls of \<^verbatim>\<open>awardPoints\<close> and
  \<^verbatim>\<open>checkAndAwardBadges\<close> whose callers go on whatever the outcome, and, between them,
  the rest of the application replacing the submissions, the clock moving, and the
  storage changing its mind about which requests it will reject.
\<close>

datatype operation =
    Award string int string
  | Evaluate string
  | Elsewhere "submission list" string "bool list"

fun perform :: "operation \<Rightarrow> store \<Rightarrow> store" where
  "perform (Award userId pts reason) s = snd (awardPoints userId pts reason s)"
| "perform (Evaluate userId) s = snd (checkAndAwardBadges userId s)"
| "perform (Elsewhere subs t fs) s = s\<lparr>col_submissions := subs, now := t, faults := fs\<rparr>"

definition performAll :: "operation list \<Rightarrow> store \<Rightarrow> store" where
  "performAll ops s = foldl (\<lambda>st op. perform op st) s ops"

section \<open>Notions used in the statements\<close>

text \<open>The number of grants of a badge type to a user.\<close>

definition grant_count :: "store \<Rightarrow> string \<Rightarrow> string \<Rightarrow> nat" where
  "grant_count s userId b =
     length (filter (\<lambda>d. badge_userId d = userId \<and> type d = b) (col_badges s))"

text \<open>The total a user document stands for: 0 when it has no \<^verbatim>\<open>totalPoints\<close> field.\<close>

definition total_of :: "user \<Rightarrow> int" where
  "total_of u = (case totalPoints u of None \<Rightarrow> 0 | Some t \<Rightarrow> t)"

text \<open>
  Of a list of \<^verbatim>\<open>awardPoints\<close> calls and their outcomes: the sum of the points of the
  calls for one user that succeeded, and the sum of the magnitudes of the points of all calls
  for that user.
\<close>

fun credited :: "string \<Rightarrow> (string \<times> int \<times> string) list \<Rightarrow> (error + unit) list \<Rightarrow> int" where
  "credited userId (c # cs) (r # rs) =
     (case r of
        Inl e \<Rightarrow> 0
      | Inr v \<Rightarrow> (if fst c = userId then fst (snd c) else 0))
     + credited userId cs rs"
| "credited userId cs rs = 0"

definition magnitude :: "string \<Rightarrow> (string \<times> int \<times> string) list \<Rightarrow> int" where
  "magnitude userId calls =
     sum_list (map (\<lambda>c. \<bar>fst (snd c)\<bar>) (filter (\<lambda>c. fst c = userId) calls))"

text \<open>A call that leaves the users, the submissions, the badges and the clock as they were.\<close>

definition same_data :: "store \<Rightarrow> store \<Rightarrow> bool" where
  "same_data s s' =
     (users s' = users s \<and> col_submissions s' = col_submissions s \<and>
      col_badges s' = col_badges s \<and> now s' = now s)"

text \<open>
  A call is harmless when it leaves the data as it was whatever it returns or throws, and
  what it returns satisfies \<open>P\<close>.
\<close>

definition harmless :: "('a \<Rightarrow> bool) \<Rightarrow> 'a io \<Rightarrow> bool" where
  "harmless P m =
     (\<forall>s. same_data s (snd (m s)) \<and> (case fst (m s) of Inl e \<Rightarrow> True | Inr x \<Rightarrow> P x))"

section \<open>The badge catalogue as a table\<close>

text \<open>
  The catalogue in the words of the specification, a table of
  \<open>(badgeId, counterName, threshold)\<close> over counters read off the store: completion
  counts 1, 5, 10 and 25, the count of approved submissions for the photographer badge (10),
  and 5 perfect submissions, a perfect submission being an approved one with a score of at
  least 95. The number of completed challenges is the number of approved submissions. A row
  is due when its counter has reached the threshold and the user does not hold the badge.
\<close>

datatype counter = CompletedChallenges | ApprovedSubmissions | PerfectSubmissions

definition badge_criteria :: "(string \<times> counter \<times> nat) list" where
  "badge_criteria =
     [(''first_steps'', CompletedChallenges, 1),
      (''explorer'', CompletedChallenges, 5),
      (''adventurer'', CompletedChallenges, 10),
      (''master_explorer'', CompletedChallenges, 25),
      (''photographer'', ApprovedSubmissions, 10),
      (''perfectionist'', PerfectSubmissions, 5)]"

definition approved_count :: "store \<Rightarrow> string \<Rightarrow> nat" where
  "approved_count s userId =
     length (filter (\<lambda>d. sub_userId d = userId \<and> status d = Approved) (col_submissions s))"

definition perfect_count :: "store \<Rightarrow> string \<Rightarrow> nat" where
  "perfect_count s userId =
     length (filter (\<lambda>d. sub_userId d = userId \<and> status d = Approved \<and>
                          (case score d of None \<Rightarrow> False | Some v \<Rightarrow> 95 \<le> v))
               (col_submissions s))"

fun counter_value :: "counter \<Rightarrow> store \<Rightarrow> string \<Rightarrow> nat" where
  "counter_value CompletedChallenges s userId = approved_count s userId"
| "counter_value ApprovedSubmissions s userId = approved_count s userId"
| "counter_value PerfectSubmissions s userId = perfect_count s userId"

definition holds :: "store \<Rightarrow> string \<Rightarrow> string \<Rightarrow> bool" where
  "holds s userId b = (\<exists>d \<in> set (col_badges s). badge_userId d = userId \<and> type d = b)"

definition due :: "store \<Rightarrow> string \<Rightarrow> string \<times> counter \<times> nat \<Rightarrow> bool" where
  "due s userId row =
     (case row of (b, c, n) \<Rightarrow> n \<le> counter_value c s userId \<and> \<not> holds s userId b)"

section \<open>Example stores\<close>

text \<open>Stores, calls and histories on which the statements below are run.\<close>

definition approved :: "string \<Rightarrow> string \<Rightarrow> int option \<Rightarrow> submission" where
  "approved userId c sc = \<lparr>sub_userId = userId, challengeId = c, status = Approved, score = sc\<rparr>"

definition alice :: user where
  "alice = userData ''u1'' ''alice@example.org'' ''alice'' None ''2025-01-01T00:00:00.000Z''"

definition store0 :: store where
  "store0 = \<lparr>users = [''u1'' \<mapsto> alice], col_submissions = [], col_badges = [],
             now = ''2025-01-02T00:00:00.000Z'', faults = []\<rparr>"

text \<open>Alice with five approved submissions, two of them perfect.\<close>

definition store5 :: store where
  "store5 = store0\<lparr>col_submissions :=
     [approved ''u1'' ''c1'' (Some 80), approved ''u1'' ''c2'' None,
      approved ''u1'' ''c3'' (Some 95), approved ''u1'' ''c4'' (Some 70),
      approved ''u1'' ''c5'' (Some 99)]\<rparr>"

text \<open>Alice with one approved submission and no badge.\<close>

definition store1 :: store where
  "store1 = store0\<lparr>col_submissions := [approved ''u1'' ''c1'' (Some 80)]\<rparr>"

text \<open>
  Carol has 30 points and a total of 40; Dave's document has neither counter; Erin's
  counters stand at the largest safe integer, \<open>2^53 - 1\<close>.
\<close>

definition carol :: user where
  "carol = (userData ''u3'' ''carol@example.org'' ''carol'' None ''2025-01-01T00:00:00.000Z'')
             \<lparr>points := Some 30, totalPoints := Some 40\<rparr>"

definition dave :: user where
  "dave = (userData ''u4'' ''dave@example.org'' ''dave'' None ''2025-01-01T00:00:00.000Z'')
            \<lparr>points := None, totalPoints := None\<rparr>"

definition erin :: user where
  "erin = (userData ''u5'' ''erin@example.org'' ''erin'' None ''2025-01-01T00:00:00.000Z'')
            \<lparr>points := Some 9007199254740991, totalPoints := Some 9007199254740991\<rparr>"

definition store3 :: store where
  "store3 = store0\<lparr>users := [''u3'' \<mapsto> carol, ''u4'' \<mapsto> dave, ''u5'' \<mapsto> erin]\<rparr>"

text \<open>
  Three calls for Carol and one for Dave; the storage rejects the write of the second call
  (its fourth request).
\<close>

definition calls4 :: "(string \<times> int \<times> string) list" where
  "calls4 = [(''u3'', 100, ''challenge''), (''u3'', 7, ''login''), (''u4'', 10, ''login''),
             (''u3'', -50, ''correction'')]"

definition store3_rejecting :: store where
  "store3_rejecting = store3\<lparr>faults := [False, False, False, True]\<rparr>"

text \<open>
  A history of evaluations and awards for Alice, with five approved submissions from the
  start, the storage rejecting a request on the way.
\<close>

definition history :: "operation list" where
  "history =
     [Evaluate ''u1'', Award ''u1'' 50 ''New badge earned: first_steps'',
      Elsewhere (col_submissions store5) ''2025-01-03T00:00:00.000Z'' [False, False, False, True],
      Evaluate ''u1'', Evaluate ''u1'', Award ''u2'' 10 ''login'', Evaluate ''u1'']"

section \<open>Basic facts about the storage calls\<close>

lemma tick_fields [simp]:
  "users (tick s) = users s" "col_submissions (tick s) = col_submissions s"
  "col_badges (tick s) = col_badges s" "now (tick s) = now s"
  by (simp_all add: tick_def)

lemma andThenE:
  assumes "andThen m f s = (r, s'')"
  obtains (thrown) e where "m s = (Inl e, s'')" "r = Inl e"
        | (went_on) x s' where "m s = (Inr x, s')" "f x s' = (r, s'')"
  using assms by (auto simp: andThen_def split: prod.splits sum.splits)

lemma getUser_run:
  assumes "getUser userId s = (r, s')"
  shows "s' = tick s" "r = (if rejected s then Inl PersistenceError else Inr (users s userId))"
  using assms by (auto simp: getUser_def firestore_def split: if_splits)

lemma updateUser_run:
  assumes "updateUser userId updates s = (r, s')"
  shows "col_badges s' = col_badges s" "col_submissions s' = col_submissions s" "now s' = now s"
    "case r of
       Inl e \<Rightarrow> users s' = users s
     | Inr _ \<Rightarrow> \<not> rejected s \<and>
         (\<exists>u. users s userId = Some u \<and>
              users s' = (users s)(userId \<mapsto> merge_updates updates (now s) u))"
  using assms
  by (auto simp: updateUser_def firestore_def split: if_splits option.splits)

lemma awardPoints_run:
  assumes "awardPoints userId pts reason s = (r, s')"
  shows "col_badges s' = col_badges s \<and> col_submissions s' = col_submissions s \<and> now s' = now s \<and>
    (case r of
       Inl e \<Rightarrow> users s' = users s
     | Inr _ \<Rightarrow>
         (\<exists>u. users s userId = Some u \<and>
              users s' = (users s)(userId \<mapsto>
                merge_updates \<lparr>upd_points = js_add (or_zero (points u)) pts,
                               upd_totalPoints = js_add (or_zero (totalPoints u)) pts\<rparr> (now s) u)))"
proof -
  let ?rest = "\<lambda>usr. case usr of
         None \<Rightarrow> throw UserNotFound
       | Some u \<Rightarrow>
           (let currentPoints = or_zero (points u);
                newPoints = js_add currentPoints pts
            in updateUser userId
                 \<lparr>upd_points = newPoints,
                  upd_totalPoints = js_add (or_zero (totalPoints u)) pts\<rparr>)"
  from assms have run: "andThen (getUser userId) ?rest s = (r, s')"
    by (simp add: awardPoints_def)
  then show ?thesis
  proof (cases rule: andThenE)
    case (thrown e)
    with getUser_run(1)[OF thrown(1)] show ?thesis by simp
  next
    case (went_on usr s1)
    from getUser_run[OF went_on(1)] have s1: "s1 = tick s" and usr: "usr = users s userId"
      by (simp_all split: if_splits)
    show ?thesis
    proof (cases usr)
      case None
      with went_on(2) s1 show ?thesis by (auto simp: throw_def)
    next
      case (Some u)
      with went_on(2) have "updateUser userId
          \<lparr>upd_points = js_add (or_zero (points u)) pts,
           upd_totalPoints = js_add (or_zero (totalPoints u)) pts\<rparr> s1 = (r, s')"
        by (simp add: Let_def)
      from updateUser_run[OF this] s1 usr Some show ?thesis
        by (auto split: sum.splits)
    qed
  qed
qed

lemma awardPoints_answered:
  assumes "users s userId = Some u" "\<not> rejected s" "\<not> rejected (tick s)"
  shows "fst (awardPoints userId pts reason s) = Inr ()"
  using assms
  by (simp add: awardPoints_def andThen_def getUser_def updateUser_def firestore_def Let_def)

lemma to_double_safe: "\<bar>n\<bar> \<le> 9007199254740991 \<Longrightarrow> to_double n = n"
  by (simp add: to_double_def)

lemma to_double_beyond: "to_double 9007199254740993 = 9007199254740992"
  by code_simp

lemma merge_updates_fields [simp]:
  "totalPoints (merge_updates x t u) = Some (upd_totalPoints x)"
  "points (merge_updates x t u) = Some (upd_points x)"
  by (simp_all add: merge_updates_def)

section \<open>The badge write\<close>

lemma awardBadge_refused: "awardBadge userId badgeType None = throw InvalidDocument"
  by (simp add: awardBadge_def createBadge_def)

lemma grant_refused:
  "grant reached E userId b nb =
     (if reached \<and> b \<notin> set E then throw InvalidDocument else resolve nb)"
  by (rule ext) (simp add: grant_def awardBadge_refused andThen_def throw_def)

lemma harmless_andThen:
  assumes "harmless Q m" and "\<And>x. Q x \<Longrightarrow> harmless P (f x)"
  shows "harmless P (andThen m f)"
  unfolding harmless_def
proof
  fix s
  obtain r s1 where m: "m s = (r, s1)" by (cases "m s")
  from assms(1) m have d: "same_data s s1" and q: "case r of Inl e \<Rightarrow> True | Inr x \<Rightarrow> Q x"
    by (auto simp: harmless_def dest: spec[of _ s])
  show "same_data s (snd (andThen m f s)) \<and>
        (case fst (andThen m f s) of Inl e \<Rightarrow> True | Inr x \<Rightarrow> P x)"
  proof (cases r)
    case (Inl e)
    with m d show ?thesis by (simp add: andThen_def)
  next
    case (Inr x)
    with q have "harmless P (f x)" by (simp add: assms(2))
    then have "same_data s1 (snd (f x s1))"
      "case fst (f x s1) of Inl e \<Rightarrow> True | Inr y \<Rightarrow> P y"
      by (simp_all add: harmless_def)
    with m d Inr show ?thesis by (simp add: andThen_def same_data_def)
  qed
qed

lemma harmless_resolve: "P x \<Longrightarrow> harmless P (resolve x)"
  by (simp add: harmless_def resolve_def same_data_def)

lemma harmless_throw: "harmless P (throw e)"
  by (simp add: harmless_def throw_def same_data_def)

lemma harmless_read: "harmless (\<lambda>x. True) (firestore (\<lambda>s. (Inr (g s), s)))"
  by (simp add: harmless_def firestore_def same_data_def)

lemma harmless_grant: "P nb \<Longrightarrow> harmless P (grant reached E userId b nb)"
  by (simp add: grant_refused harmless_resolve harmless_throw)

lemma harmless_try_checkAndAwardBadges:
  "harmless (\<lambda>nb. nb = []) (try_checkAndAwardBadges userId)"
  unfolding try_checkAndAwardBadges_def getUser_def getUserBadges_def getUserSubmissions_def Let_def
proof (rule harmless_andThen [OF harmless_read])
  fix usr :: "user option"
  show "harmless (\<lambda>nb. nb = [])
     (case usr of
        None \<Rightarrow> resolve []
      | Some u \<Rightarrow>
          andThen (firestore (\<lambda>s. (Inr (rev (filter (\<lambda>d. badge_userId d = userId) (col_badges s))), s)))
           (\<lambda>userBadges.
              andThen (firestore (\<lambda>s. (Inr (rev (filter (\<lambda>d. sub_userId d = userId) (col_submissions s))), s)))
               (\<lambda>subs.
                  andThen (grant (1 \<le> length (filter (\<lambda>d. status d = Approved) subs))
                             (map type userBadges) userId FIRST_STEPS [])
                   (\<lambda>nb1. andThen (grant (5 \<le> length (filter (\<lambda>d. status d = Approved) subs))
                                      (map type userBadges) userId EXPLORER nb1)
                    (\<lambda>nb2. andThen (grant (10 \<le> length (filter (\<lambda>d. status d = Approved) subs))
                                       (map type userBadges) userId ADVENTURER nb2)
                     (\<lambda>nb3. andThen (grant (25 \<le> length (filter (\<lambda>d. status d = Approved) subs))
                                        (map type userBadges) userId MASTER_EXPLORER nb3)
                      (\<lambda>nb4. andThen (grant (10 \<le> length (filter (\<lambda>d. status d = Approved) subs))
                                         (map type userBadges) userId PHOTOGRAPHER nb4)
                       (grant (5 \<le> length (filter (\<lambda>d. score_at_least d 95)
                                               (filter (\<lambda>d. status d = Approved) subs)))
                          (map type userBadges) userId PERFECTIONIST))))))))"
  proof (cases usr)
    case None
    then show ?thesis by (simp add: harmless_resolve)
  next
    case (Some u)
    have six: "harmless (\<lambda>nb. nb = [])
        (andThen (grant c1 E userId b1 [])
          (\<lambda>nb1. andThen (grant c2 E userId b2 nb1)
           (\<lambda>nb2. andThen (grant c3 E userId b3 nb2)
            (\<lambda>nb3. andThen (grant c4 E userId b4 nb3)
             (\<lambda>nb4. andThen (grant c5 E userId b5 nb4)
              (grant c6 E userId b6))))))" for c1 c2 c3 c4 c5 c6 E b1 b2 b3 b4 b5 b6
      by (intro harmless_andThen [where Q = "\<lambda>nb. nb = []"] harmless_grant) simp_all
    from Some show ?thesis
      by (simp only: option.case)
         (intro harmless_andThen [OF harmless_read] six)
  qed
qed

lemma try_checkAndAwardBadges_effect:
  assumes "try_checkAndAwardBadges userId s = (r, s')"
  shows "users s' = users s \<and> col_submissions s' = col_submissions s \<and>
         col_badges s' = col_badges s \<and> now s' = now s \<and> (r = Inr [] \<or> (\<exists>e. r = Inl e))"
proof -
  from harmless_try_checkAndAwardBadges [of userId] assms
  have "same_data s s'" "case r of Inl e \<Rightarrow> True | Inr x \<Rightarrow> x = []"
    by (auto simp: harmless_def dest: spec[of _ s])
  then show ?thesis by (cases r) (auto simp: same_data_def)
qed

lemma checkAndAwardBadges_effect:
  "fst (checkAndAwardBadges userId s) = Inr [] \<and>
   users (snd (checkAndAwardBadges userId s)) = users s \<and>
   col_submissions (snd (checkAndAwardBadges userId s)) = col_submissions s \<and>
   col_badges (snd (checkAndAwardBadges userId s)) = col_badges s \<and>
   now (snd (checkAndAwardBadges userId s)) = now s"
proof -
  obtain r s' where run: "try_checkAndAwardBadges userId s = (r, s')"
    by (cases "try_checkAndAwardBadges userId s")
  from try_checkAndAwardBadges_effect[OF run] run show ?thesis
    by (auto simp: checkAndAwardBadges_def)
qed


section \<open>Evaluating the examples\<close>

lemmas service_defs =
  checkAndAwardBadges_def try_checkAndAwardBadges_def grant_def andThen_def resolve_def throw_def
  getUser_def getUserBadges_def getUserSubmissions_def awardBadge_def createBadge_def
  updateUser_def awardPoints_def merge_updates_def or_zero_def js_add_def to_double_safe
  firestore_def rejected_def tick_def score_at_least_def Let_def
  FIRST_STEPS_def EXPLORER_def ADVENTURER_def MASTER_EXPLORER_def PHOTOGRAPHER_def
  PERFECTIONIST_def

lemmas example_defs =
  store0_def store1_def store5_def store3_def store3_rejecting_def approved_def
  alice_def carol_def dave_def erin_def userData_def

section \<open>The total after \<^verbatim>\<open>awardPoints\<close>\<close>

lemma or_zero_total_of: "or_zero (totalPoints u) = total_of u"
  by (simp add: or_zero_def total_of_def)

lemma magnitude_Cons:
  "magnitude userId ((v, p, r) # calls) = (if v = userId then \<bar>p\<bar> else 0) + magnitude userId calls"
  by (simp add: magnitude_def)

lemma magnitude_nonneg: "0 \<le> magnitude userId calls"
  by (induction calls) (auto simp: magnitude_def)

lemma awardEach_total:
  assumes "awardEach calls s = (rs, s')" and "users s userId = Some u"
    and "\<bar>total_of u\<bar> + magnitude userId calls \<le> 9007199254740991"
  shows "\<exists>u'. users s' userId = Some u' \<and>
           total_of u' = total_of u + credited userId calls rs"
  using assms
proof (induction calls arbitrary: s u rs s')
  case Nil
  then show ?case by simp
next
  case (Cons call calls)
  obtain v p reason where call: "call = (v, p, reason)" by (cases call)
  obtain r0 s1 where first: "awardPoints v p reason s = (r0, s1)"
    by (cases "awardPoints v p reason s")
  obtain rs1 s2 where rest: "awardEach calls s1 = (rs1, s2)"
    by (cases "awardEach calls s1")
  from Cons.prems(1) call first rest have rs: "rs = r0 # rs1" and s': "s' = s2"
    by simp_all
  from Cons.prems(3) call
  have bound: "\<bar>total_of u\<bar> + (if v = userId then \<bar>p\<bar> else 0) + magnitude userId calls
                \<le> 9007199254740991"
    by (simp add: magnitude_Cons)
  note run = awardPoints_run[OF first]
  show ?case
  proof (cases "v = userId \<and> (\<exists>x. r0 = Inr x)")
    case True
    then obtain x where r0: "r0 = Inr x" and v: "v = userId" by blast
    let ?u1 = "merge_updates \<lparr>upd_points = js_add (or_zero (points u)) p,
                 upd_totalPoints = js_add (or_zero (totalPoints u)) p\<rparr> (now s) u"
    from run r0 v Cons.prems(2) have u1: "users s1 userId = Some ?u1" by auto
    from bound v magnitude_nonneg[of userId calls]
    have "\<bar>total_of u + p\<bar> \<le> 9007199254740991" by simp
    then have "totalPoints ?u1 = Some (total_of u + p)"
      by (simp add: js_add_def or_zero_total_of to_double_safe)
    then have t1: "total_of ?u1 = total_of u + p"
      by (simp add: total_of_def)
    with bound v have "\<bar>total_of ?u1\<bar> + magnitude userId calls \<le> 9007199254740991"
      by simp
    from Cons.IH[OF rest u1 this] t1 rs s' r0 v call show ?thesis
      by auto
  next
    case False
    have u1: "users s1 userId = Some u"
    proof (cases r0)
      case (Inl e)
      with run Cons.prems(2) show ?thesis by simp
    next
      case (Inr x)
      with False have "v \<noteq> userId" by simp
      with run Inr Cons.prems(2) show ?thesis by auto
    qed
    from bound magnitude_nonneg[of userId calls]
    have "\<bar>total_of u\<bar> + magnitude userId calls \<le> 9007199254740991"
      by (simp split: if_splits)
    from Cons.IH[OF rest u1 this] False rs s' call show ?thesis
      by (cases r0) auto
  qed
qed

text \<open>
  Claim C1, as amended. For an existing user, a successful \<^verbatim>\<open>awardPoints\<close> call stores
  the previous total (0 when the document has none) plus the points as the user's
  \<^verbatim>\<open>totalPoints\<close>, as long as that sum is a safe integer (magnitude at most
  \<open>2^53 - 1\<close>); the call succeeds when the storage answers its two requests, the lookup
  and the write; and it returns no value (\<^verbatim>\<open>Promise<void>\<close>, the type \<^typ>\<open>unit\<close>
  here). After any run of calls, for this user and for others in any order, each succeeding
  or failing, the user's total is its value before the run plus the sum of the points of the
  successful calls for this user, as long as the magnitudes of the total before the run and
  of the points passed for this user add up to a safe integer.
\<close>

theorem awardPoints_adds_to_total:
  "(users s userId = Some u \<and> awardPoints userId pts reason s = (Inr (), s1) \<and>
    \<bar>total_of u + pts\<bar> \<le> 9007199254740991 \<longrightarrow>
      (\<exists>u'. users s1 userId = Some u' \<and> totalPoints u' = Some (total_of u + pts))) \<and>
   (users s userId = Some u \<and> \<not> rejected s \<and> \<not> rejected (tick s) \<longrightarrow>
      fst (awardPoints userId pts reason s) = Inr ()) \<and>
   (users s userId = Some u \<and> awardEach calls s = (rs, s2) \<and>
    \<bar>total_of u\<bar> + magnitude userId calls \<le> 9007199254740991 \<longrightarrow>
      (\<exists>u'. users s2 userId = Some u' \<and>
            total_of u' = total_of u + credited userId calls rs))"
proof (intro conjI impI)
  assume a: "users s userId = Some u \<and> awardPoints userId pts reason s = (Inr (), s1) \<and>
    \<bar>total_of u + pts\<bar> \<le> 9007199254740991"
  then have "awardPoints userId pts reason s = (Inr (), s1)" by simp
  from awardPoints_run[OF this] a
  show "\<exists>u'. users s1 userId = Some u' \<and> totalPoints u' = Some (total_of u + pts)"
    by (auto simp: js_add_def or_zero_total_of to_double_safe)
next
  assume "users s userId = Some u \<and> \<not> rejected s \<and> \<not> rejected (tick s)"
  then show "fst (awardPoints userId pts reason s) = Inr ()"
    by (simp add: awardPoints_answered)
next
  assume "users s userId = Some u \<and> awardEach calls s = (rs, s2) \<and>
    \<bar>total_of u\<bar> + magnitude userId calls \<le> 9007199254740991"
  then show "\<exists>u'. users s2 userId = Some u' \<and>
            total_of u' = total_of u + credited userId calls rs"
    using awardEach_total by blast
qed

lemma calls4_run:
  "fst (awardEach calls4 store3_rejecting) = [Inr (), Inl PersistenceError, Inr (), Inr ()]"
  "map_option totalPoints (users (snd (awardEach calls4 store3_rejecting)) ''u3'') = Some (Some 90)"
  by (simp_all add: calls4_def service_defs example_defs)

theorem awardPoints_adds_to_total_witness:
  "users store3 ''u3'' = Some carol \<and> \<not> rejected store3 \<and> \<not> rejected (tick store3) \<and>
   total_of carol = 40 \<and>
   fst (awardPoints ''u3'' 100 ''challenge'' store3) = Inr () \<and>
   (\<exists>u'. users (snd (awardPoints ''u3'' 100 ''challenge'' store3)) ''u3'' = Some u' \<and>
      totalPoints u' = Some 140) \<and>
   users store3_rejecting ''u3'' = Some carol \<and>
   fst (awardEach calls4 store3_rejecting) = [Inr (), Inl PersistenceError, Inr (), Inr ()] \<and>
   magnitude ''u3'' calls4 = 157 \<and>
   credited ''u3'' calls4 (fst (awardEach calls4 store3_rejecting)) = 50 \<and>
   (\<exists>u'. users (snd (awardEach calls4 store3_rejecting)) ''u3'' = Some u' \<and> total_of u' = 90)"
proof -
  have u: "users store3 ''u3'' = Some carol" "users store3_rejecting ''u3'' = Some carol"
    and f: "\<not> rejected store3" "\<not> rejected (tick store3)"
    by (simp_all add: example_defs rejected_def tick_def)
  have t: "total_of carol = 40" by (simp add: total_of_def carol_def)
  have m: "magnitude ''u3'' calls4 = 157" by (simp add: magnitude_def calls4_def)
  have c: "credited ''u3'' calls4 (fst (awardEach calls4 store3_rejecting)) = 50"
    by (simp add: calls4_run) (simp add: calls4_def)
  obtain s1 where s1: "awardPoints ''u3'' 100 ''challenge'' store3 = (Inr (), s1)"
    using awardPoints_answered[OF u(1) f, of 100 "''challenge''"]
    by (cases "awardPoints ''u3'' 100 ''challenge'' store3") auto
  obtain s2 where s2: "awardEach calls4 store3_rejecting = (fst (awardEach calls4 store3_rejecting), s2)"
    by (cases "awardEach calls4 store3_rejecting") auto
  from awardPoints_adds_to_total [of store3 "''u3''" carol 100 "''challenge''" s1] u f s1 t
  have single: "\<exists>u'. users s1 ''u3'' = Some u' \<and> totalPoints u' = Some 140"
    and succeeds: "fst (awardPoints ''u3'' 100 ''challenge'' store3) = Inr ()" by simp_all
  from awardPoints_adds_to_total [of store3_rejecting "''u3''" carol _ _ _ calls4
      "fst (awardEach calls4 store3_rejecting)" s2] u s2 t m c
  have run: "\<exists>u'. users s2 ''u3'' = Some u' \<and> total_of u' = 90" by simp
  from single s1 have single': "\<exists>u'. users (snd (awardPoints ''u3'' 100 ''challenge'' store3)) ''u3'' = Some u' \<and>
      totalPoints u' = Some 140" by simp
  from run s2 have run': "\<exists>u'. users (snd (awardEach calls4 store3_rejecting)) ''u3'' = Some u' \<and>
      total_of u' = 90"
    by (metis snd_conv)
  from u f t succeeds single' m c run' calls4_run(1) show ?thesis by simp
qed

text \<open>
  The claim as stated has the call return the new total, for every integer. The call returns
  nothing: awarding 100 and awarding 50 to Carol resolve to the same value, while the stored
  totals are 140 and 90. And beyond the safe integers the sum is rounded: awarding 2 to Erin,
  whose total is \<open>2^53 - 1\<close>, stores \<open>2^53\<close>, one more than before and not two.
\<close>

theorem awardPoints_returns_no_total_counterexample:
  "fst (awardPoints ''u3'' 100 ''challenge'' store3) = Inr () \<and>
   fst (awardPoints ''u3'' 50 ''challenge'' store3) = fst (awardPoints ''u3'' 100 ''challenge'' store3) \<and>
   map_option totalPoints (users (snd (awardPoints ''u3'' 100 ''challenge'' store3)) ''u3'') = Some (Some 140) \<and>
   map_option totalPoints (users (snd (awardPoints ''u3'' 50 ''challenge'' store3)) ''u3'') = Some (Some 90) \<and>
   map_option totalPoints (users store3 ''u5'') = Some (Some 9007199254740991) \<and>
   fst (awardPoints ''u5'' 2 ''challenge'' store3) = Inr () \<and>
   map_option totalPoints (users (snd (awardPoints ''u5'' 2 ''challenge'' store3)) ''u5'')
     = Some (Some 9007199254740992)"
  by (simp add: service_defs example_defs to_double_beyond)


section \<open>The frame of a successful \<^verbatim>\<open>awardPoints\<close>\<close>

text \<open>
  Claim C10, as amended. A successful \<^verbatim>\<open>awardPoints\<close> call raises the
  \<^verbatim>\<open>points\<close> and the \<^verbatim>\<open>totalPoints\<close> of the user by the points passed (a
  missing counter counting as 0), each as long as its new value is a safe integer (magnitude
  at most \<open>2^53 - 1\<close>), and changes no other field of the document except
  \<^verbatim>\<open>updatedAt\<close>; the other users, the submissions and the badges stay as they were.
\<close>

theorem awardPoints_frame:
  assumes "awardPoints userId pts reason s = (Inr (), s')"
  shows "\<exists>u u'. users s userId = Some u \<and> users s' userId = Some u' \<and>
           (\<forall>p. points u = Some p \<and> \<bar>p + pts\<bar> \<le> 9007199254740991 \<longrightarrow>
                  points u' = Some (p + pts)) \<and>
           (points u = None \<and> \<bar>pts\<bar> \<le> 9007199254740991 \<longrightarrow> points u' = Some pts) \<and>
           (\<forall>t. totalPoints u = Some t \<and> \<bar>t + pts\<bar> \<le> 9007199254740991 \<longrightarrow>
                  totalPoints u' = Some (t + pts)) \<and>
           (totalPoints u = None \<and> \<bar>pts\<bar> \<le> 9007199254740991 \<longrightarrow>
              totalPoints u' = Some pts) \<and>
           u'\<lparr>points := points u, totalPoints := totalPoints u, updatedAt := updatedAt u\<rparr> = u \<and>
           (\<forall>other. other \<noteq> userId \<longrightarrow> users s' other = users s other) \<and>
           col_submissions s' = col_submissions s \<and> col_badges s' = col_badges s"
proof -
  from awardPoints_run[OF assms] obtain u where
    u: "users s userId = Some u"
    and s': "users s' = (users s)(userId \<mapsto>
                merge_updates \<lparr>upd_points = js_add (or_zero (points u)) pts,
                               upd_totalPoints = js_add (or_zero (totalPoints u)) pts\<rparr> (now s) u)"
    and rest: "col_submissions s' = col_submissions s" "col_badges s' = col_badges s"
    by auto
  let ?u' = "merge_updates \<lparr>upd_points = js_add (or_zero (points u)) pts,
                             upd_totalPoints = js_add (or_zero (totalPoints u)) pts\<rparr> (now s) u"
  have "?u'\<lparr>points := points u, totalPoints := totalPoints u, updatedAt := updatedAt u\<rparr> = u"
    by (simp add: merge_updates_def)
  moreover have "\<forall>p. points u = Some p \<and> \<bar>p + pts\<bar> \<le> 9007199254740991 \<longrightarrow>
                  points ?u' = Some (p + pts)"
    by (simp add: js_add_def or_zero_def to_double_safe)
  moreover have "points u = None \<and> \<bar>pts\<bar> \<le> 9007199254740991 \<longrightarrow> points ?u' = Some pts"
    by (simp add: js_add_def or_zero_def to_double_safe)
  moreover have "\<forall>t. totalPoints u = Some t \<and> \<bar>t + pts\<bar> \<le> 9007199254740991 \<longrightarrow>
                  totalPoints ?u' = Some (t + pts)"
    by (simp add: js_add_def or_zero_def to_double_safe)
  moreover have "totalPoints u = None \<and> \<bar>pts\<bar> \<le> 9007199254740991 \<longrightarrow>
                  totalPoints ?u' = Some pts"
    by (simp add: js_add_def or_zero_def to_double_safe)
  ultimately show ?thesis using u s' rest by simp
qed

theorem awardPoints_frame_witness:
  "(\<exists>s' u'. awardPoints ''u3'' 100 ''challenge'' store3 = (Inr (), s') \<and>
      users store3 ''u3'' = Some carol \<and> points carol = Some 30 \<and> totalPoints carol = Some 40 \<and>
      users s' ''u3'' = Some u' \<and> points u' = Some 130 \<and> totalPoints u' = Some 140 \<and>
      u'\<lparr>points := points carol, totalPoints := totalPoints carol, updatedAt := updatedAt carol\<rparr>
        = carol \<and>
      users s' ''u4'' = users store3 ''u4'') \<and>
   (\<exists>s' u'. awardPoints ''u4'' 10 ''login'' store3 = (Inr (), s') \<and>
      users store3 ''u4'' = Some dave \<and> points dave = None \<and> totalPoints dave = None \<and>
      users s' ''u4'' = Some u' \<and> points u' = Some 10 \<and> totalPoints u' = Some 10)"
proof -
  have c: "users store3 ''u3'' = Some carol" "points carol = Some 30" "totalPoints carol = Some 40"
    and d: "users store3 ''u4'' = Some dave" "points dave = None" "totalPoints dave = None"
    and f: "\<not> rejected store3" "\<not> rejected (tick store3)"
    by (simp_all add: example_defs rejected_def tick_def)
  obtain s1 where s1: "awardPoints ''u3'' 100 ''challenge'' store3 = (Inr (), s1)"
    using awardPoints_answered[OF c(1) f, of 100 "''challenge''"]
    by (cases "awardPoints ''u3'' 100 ''challenge'' store3") auto
  obtain s2 where s2: "awardPoints ''u4'' 10 ''login'' store3 = (Inr (), s2)"
    using awardPoints_answered[OF d(1) f, of 10 "''login''"]
    by (cases "awardPoints ''u4'' 10 ''login'' store3") auto
  from awardPoints_frame [OF s1] c
  have first: "\<exists>u'. users s1 ''u3'' = Some u' \<and> points u' = Some 130 \<and> totalPoints u' = Some 140 \<and>
      u'\<lparr>points := points carol, totalPoints := totalPoints carol, updatedAt := updatedAt carol\<rparr>
        = carol \<and> users s1 ''u4'' = users store3 ''u4''"
    by auto
  from awardPoints_frame [OF s2] d
  have second: "\<exists>u'. users s2 ''u4'' = Some u' \<and> points u' = Some 10 \<and> totalPoints u' = Some 10"
    by auto
  from first second s1 s2 c d show ?thesis by simp
qed

text \<open>
  The claim as stated has every successful call raise both counters by the points passed.
  Erin's counters stand at \<open>2^53 - 1\<close>; awarding her 2 succeeds and leaves both at
  \<open>2^53\<close>, raised by 1.
\<close>

theorem awardPoints_rounds_counterexample:
  "map_option points (users store3 ''u5'') = Some (Some 9007199254740991) \<and>
   map_option totalPoints (users store3 ''u5'') = Some (Some 9007199254740991) \<and>
   fst (awardPoints ''u5'' 2 ''challenge'' store3) = Inr () \<and>
   map_option points (users (snd (awardPoints ''u5'' 2 ''challenge'' store3)) ''u5'')
     = Some (Some (9007199254740991 + 1)) \<and>
   map_option totalPoints (users (snd (awardPoints ''u5'' 2 ''challenge'' store3)) ''u5'')
     = Some (Some (9007199254740991 + 1))"
  by (simp add: service_defs example_defs to_double_beyond)

section \<open>Re-running the badge evaluation\<close>

text \<open>
  Claim C2. A second call of \<^verbatim>\<open>checkAndAwardBadges\<close> for the same user, on the store
  as the first call left it and whatever the clock shows and the storage does by then,
  returns the empty list. (The first call returns the empty list as well: the badge write is
  refused, see Claim C4.)
\<close>

theorem checkAndAwardBadges_idempotent:
  "fst (checkAndAwardBadges userId (snd (checkAndAwardBadges userId s))) = Inr [] \<and>
   fst (checkAndAwardBadges userId ((snd (checkAndAwardBadges userId s))\<lparr>now := t, faults := fs\<rparr>))
     = Inr []"
  by (simp add: checkAndAwardBadges_effect)

section \<open>No badge is granted twice\<close>

lemma perform_badges: "col_badges (perform op s) = col_badges s"
proof (cases op)
  case (Award userId pts reason)
  obtain r s' where run: "awardPoints userId pts reason s = (r, s')"
    by (cases "awardPoints userId pts reason s")
  from awardPoints_run[OF run] run Award show ?thesis by simp
next
  case (Evaluate userId)
  then show ?thesis by (simp add: checkAndAwardBadges_effect)
next
  case (Elsewhere subs t fs)
  then show ?thesis by simp
qed

lemma performAll_badges: "col_badges (performAll ops s) = col_badges s"
  unfolding performAll_def
  by (induction ops arbitrary: s) (simp_all add: perform_badges)

text \<open>
  Claim C3. Starting from a store that holds at most one grant for every user and badge
  type (the empty badge collection, for one), any sequence of \<^verbatim>\<open>awardPoints\<close> and
  \<^verbatim>\<open>checkAndAwardBadges\<close> calls, each failing or not, with the submissions, the clock and
  the behaviour of the storage changing in between, leaves at most one grant for every user
  and badge type: the sequence leaves the badge collection as it was.
\<close>

theorem no_duplicate_badges:
  assumes "\<forall>userId b. grant_count s userId b \<le> 1"
  shows "grant_count (performAll ops s) userId b \<le> 1 \<and>
         col_badges (performAll ops s) = col_badges s"
  using assms by (simp add: grant_count_def performAll_badges)

theorem no_duplicate_badges_witness:
  "(\<forall>userId b. grant_count store5 userId b \<le> 1) \<and>
   grant_count (performAll history store5) ''u1'' ''explorer'' \<le> 1 \<and>
   col_badges (performAll history store5) = []"
proof -
  have h: "\<forall>userId b. grant_count store5 userId b \<le> 1"
    by (simp add: grant_count_def example_defs)
  have e: "col_badges store5 = []" by (simp add: example_defs)
  from no_duplicate_badges [OF h, of history "''u1''" "''explorer''"] h e
  show ?thesis by simp
qed

section \<open>The badge criteria\<close>

lemma counts_read:
  "length (filter (\<lambda>d. status d = Approved)
     (rev (filter (\<lambda>d. sub_userId d = userId) (col_submissions s)))) = approved_count s userId"
  "length (filter (\<lambda>d. score_at_least d 95) (filter (\<lambda>d. status d = Approved)
     (rev (filter (\<lambda>d. sub_userId d = userId) (col_submissions s))))) = perfect_count s userId"
  "length (filter (\<lambda>d. status d = Approved \<and> score_at_least d 95)
     (rev (filter (\<lambda>d. sub_userId d = userId) (col_submissions s)))) = perfect_count s userId"
  by (simp_all add: approved_count_def perfect_count_def score_at_least_def rev_filter[symmetric]
      conj_commute conj_left_commute del: rev_filter cong: conj_cong)

lemma earned_read:
  "b \<in> set (map type (rev (filter (\<lambda>d. badge_userId d = userId) (col_badges s))))
     \<longleftrightarrow> holds s userId b"
  by (auto simp: holds_def)

lemma try_checkAndAwardBadges_attempts:
  assumes "users s userId = Some u"
    and "\<not> rejected s" "\<not> rejected (tick s)" "\<not> rejected (tick (tick s))"
  shows "fst (try_checkAndAwardBadges userId s) =
           (if \<exists>row \<in> set badge_criteria. due s userId row then Inl InvalidDocument else Inr [])"
  using assms
  by (simp add: try_checkAndAwardBadges_def grant_refused andThen_def throw_def resolve_def
      getUser_def getUserBadges_def getUserSubmissions_def firestore_def Let_def
      counts_read earned_read badge_criteria_def due_def
      FIRST_STEPS_def EXPLORER_def ADVENTURER_def MASTER_EXPLORER_def PHOTOGRAPHER_def
      PERFECTIONIST_def del: set_map)

text \<open>
  Claim C4. The six blocks test the criteria of the claim, but none of them ever grants a
  badge. For an existing user, the three reads answered, the \<^verbatim>\<open>try\<close> block reaches a
  badge write exactly when a row of \<^const>\<open>badge_criteria\<close> is due: 1, 5, 10 or 25
  approved submissions, 10 approved submissions, or 5 approved submissions with a score of at
  least 95, for a badge the user does not hold. There the block calls \<^verbatim>\<open>awardBadge\<close>
  without metadata, the client refuses the document, and the \<^verbatim>\<open>catch\<close> returns the
  empty list: the call returns no badge and the badge collection stays as it was.
\<close>

theorem checkAndAwardBadges_grants_nothing:
  assumes "users s userId = Some u"
    and "\<not> rejected s" and "\<not> rejected (tick s)" and "\<not> rejected (tick (tick s))"
  shows "fst (try_checkAndAwardBadges userId s) =
           (if \<exists>row \<in> set badge_criteria. due s userId row then Inl InvalidDocument else Inr []) \<and>
         fst (checkAndAwardBadges userId s) = Inr [] \<and>
         col_badges (snd (checkAndAwardBadges userId s)) = col_badges s"
  using try_checkAndAwardBadges_attempts [OF assms] by (simp add: checkAndAwardBadges_effect)

text \<open>
  Alice has one approved submission and no badge, and the storage answers every request:
  \<^verbatim>\<open>first_steps\<close> is due, the \<^verbatim>\<open>try\<close> block throws at its write, the call returns
  the empty list and the badge collection stays empty.
\<close>

theorem checkAndAwardBadges_grants_nothing_witness:
  "users store1 ''u1'' = Some alice \<and> \<not> rejected store1 \<and> \<not> rejected (tick store1) \<and>
   \<not> rejected (tick (tick store1)) \<and> col_badges store1 = [] \<and>
   approved_count store1 ''u1'' = 1 \<and> due store1 ''u1'' (''first_steps'', CompletedChallenges, 1) \<and>
   fst (try_checkAndAwardBadges ''u1'' store1) = Inl InvalidDocument \<and>
   fst (checkAndAwardBadges ''u1'' store1) = Inr [] \<and>
   col_badges (snd (checkAndAwardBadges ''u1'' store1)) = []"
proof -
  have u: "users store1 ''u1'' = Some alice"
    and f: "\<not> rejected store1" "\<not> rejected (tick store1)" "\<not> rejected (tick (tick store1))"
    and e: "col_badges store1 = []"
    by (simp_all add: example_defs rejected_def tick_def)
  have c: "approved_count store1 ''u1'' = 1"
    by (simp add: approved_count_def example_defs)
  then have d: "due store1 ''u1'' (''first_steps'', CompletedChallenges, 1)"
    by (simp add: due_def holds_def e)
  then have "\<exists>row \<in> set badge_criteria. due store1 ''u1'' row"
    by (simp add: badge_criteria_def)
  with checkAndAwardBadges_grants_nothing [OF u f] u f e c d show ?thesis by simp
qed

section \<open>Unknown users\<close>

lemma try_checkAndAwardBadges_no_user:
  assumes "try_checkAndAwardBadges userId s = (r, s')" "users s userId = None"
  shows "s' = tick s" "r = Inr [] \<or> r = Inl PersistenceError"
  using assms
  by (auto simp: try_checkAndAwardBadges_def andThen_def getUser_def firestore_def resolve_def
      split: if_splits)

text \<open>
  Claim C6. \<^verbatim>\<open>awardPoints\<close> for a user id without a document fails, with
  \<open>UserNotFound\<close> whenever the storage answers the lookup (a rejected lookup throws the
  storage's own error instead), and in every case leaves the users, the submissions and
  the badges as they were: nothing is appended and no total changes.
\<close>

theorem awardPoints_unknown_user:
  assumes "users s userId = None"
  shows "(\<not> rejected s \<longrightarrow> fst (awardPoints userId pts reason s) = Inl UserNotFound) \<and>
         (\<exists>e. fst (awardPoints userId pts reason s) = Inl e) \<and>
         users (snd (awardPoints userId pts reason s)) = users s \<and>
         col_submissions (snd (awardPoints userId pts reason s)) = col_submissions s \<and>
         col_badges (snd (awardPoints userId pts reason s)) = col_badges s"
  using assms
  by (simp add: awardPoints_def andThen_def getUser_def firestore_def throw_def)

theorem awardPoints_unknown_user_witness:
  "users store0 ''u2'' = None \<and> \<not> rejected store0 \<and>
   fst (awardPoints ''u2'' 100 ''challenge'' store0) = Inl UserNotFound \<and>
   users (snd (awardPoints ''u2'' 100 ''challenge'' store0)) = users store0"
proof -
  have h: "users store0 ''u2'' = None" by (simp add: store0_def)
  have r: "\<not> rejected store0" by (simp add: store0_def rejected_def)
  from awardPoints_unknown_user [OF h, of 100 "''challenge''"] h r show ?thesis by simp
qed

section \<open>Evaluating for an unknown user\<close>

text \<open>
  Claim C9. \<^verbatim>\<open>checkAndAwardBadges\<close> for a user id without a document returns the
  empty list, whatever the storage does: it does not fail and it grants nothing.
\<close>

theorem checkAndAwardBadges_unknown_user:
  assumes "users s userId = None"
  shows "fst (checkAndAwardBadges userId s) = Inr [] \<and>
         users (snd (checkAndAwardBadges userId s)) = users s \<and>
         col_submissions (snd (checkAndAwardBadges userId s)) = col_submissions s \<and>
         col_badges (snd (checkAndAwardBadges userId s)) = col_badges s"
proof -
  obtain r s' where run: "try_checkAndAwardBadges userId s = (r, s')"
    by (cases "try_checkAndAwardBadges userId s")
  from try_checkAndAwardBadges_no_user[OF run assms] run show ?thesis
    by (auto simp: checkAndAwardBadges_def)
qed

theorem checkAndAwardBadges_unknown_user_witness:
  "users store5 ''u2'' = None \<and> fst (checkAndAwardBadges ''u2'' store5) = Inr [] \<and>
   col_badges (snd (checkAndAwardBadges ''u2'' store5)) = col_badges store5"
proof -
  have h: "users store5 ''u2'' = None" by (simp add: store5_def store0_def)
  from checkAndAwardBadges_unknown_user [OF h] h show ?thesis by simp
qed

section \<open>The rank of a user\<close>

text \<open>
  Claim C7, as amended. \<^verbatim>\<open>getUserRank\<close> takes no leaderboard type, never fails, and
  returns the placeholder \<^verbatim>\<open>{ rank: 1, totalUsers: 100, percentile: 99 }\<close> for every
  user id, known or not, without touching the store.
\<close>

theorem getUserRank_placeholder:
  "getUserRank userId s = (Inr \<lparr>rank = 1, totalUsers = 100, percentile = 99\<rparr>, s)"
  by (simp add: getUserRank_def resolve_def)

text \<open>
  The claim as stated has the call fail with \<open>UserNotRanked\<close> for an unknown user. For
  a user id without a document the call returns rank 1.
\<close>

theorem getUserRank_unknown_user_counterexample:
  "users store0 ''unknownUser'' = None \<and>
   fst (getUserRank ''unknownUser'' store0) = Inr \<lparr>rank = 1, totalUsers = 100, percentile = 99\<rparr> \<and>
   fst (getUserRank ''unknownUser'' store0) \<noteq> Inl UserNotRanked"
  by (simp add: getUserRank_def resolve_def store0_def)

section \<open>Which errors reach the caller\<close>

text \<open>
  Claim C8, as amended. \<^verbatim>\<open>awardPoints\<close> returns every error that arises inside it to
  its caller: the storage's error when the lookup or the write is rejected, and
  \<open>UserNotFound\<close> when the lookup finds no document. \<^verbatim>\<open>checkAndAwardBadges\<close> returns
  no error at all: whenever its \<^verbatim>\<open>try\<close> block throws, as it does with the storage's
  error when the lookup is rejected, the call returns the empty list, the result of a call
  that found nothing new. \<^verbatim>\<open>getUserRank\<close> cannot fail.
\<close>

theorem errors_returned_or_swallowed:
  "(rejected s \<longrightarrow> fst (awardPoints userId pts reason s) = Inl PersistenceError) \<and>
   (\<not> rejected s \<and> users s userId = None \<longrightarrow>
      fst (awardPoints userId pts reason s) = Inl UserNotFound) \<and>
   (\<not> rejected s \<and> users s userId \<noteq> None \<and> rejected (tick s) \<longrightarrow>
      fst (awardPoints userId pts reason s) = Inl PersistenceError) \<and>
   (\<forall>e. fst (checkAndAwardBadges userId s) \<noteq> Inl e) \<and>
   (rejected s \<longrightarrow> fst (try_checkAndAwardBadges userId s) = Inl PersistenceError \<and>
      fst (checkAndAwardBadges userId s) = Inr []) \<and>
   ((\<exists>e. fst (try_checkAndAwardBadges userId s) = Inl e) \<longrightarrow>
      fst (checkAndAwardBadges userId s) = Inr []) \<and>
   (\<forall>e. fst (getUserRank userId s) \<noteq> Inl e)"
proof (intro conjI impI allI)
  assume "rejected s"
  then show "fst (awardPoints userId pts reason s) = Inl PersistenceError"
    by (simp add: awardPoints_def andThen_def getUser_def firestore_def)
next
  assume "\<not> rejected s \<and> users s userId = None"
  then show "fst (awardPoints userId pts reason s) = Inl UserNotFound"
    by (simp add: awardPoints_def andThen_def getUser_def firestore_def throw_def)
next
  assume "\<not> rejected s \<and> users s userId \<noteq> None \<and> rejected (tick s)"
  then show "fst (awardPoints userId pts reason s) = Inl PersistenceError"
    by (auto simp: awardPoints_def andThen_def getUser_def updateUser_def firestore_def Let_def)
next
  fix e
  show "fst (checkAndAwardBadges userId s) \<noteq> Inl e"
    by (cases "try_checkAndAwardBadges userId s")
       (auto simp: checkAndAwardBadges_def split: sum.splits)
next
  assume "rejected s"
  then show "fst (try_checkAndAwardBadges userId s) = Inl PersistenceError"
    by (simp add: try_checkAndAwardBadges_def andThen_def getUser_def firestore_def)
next
  assume "rejected s"
  then have "fst (try_checkAndAwardBadges userId s) = Inl PersistenceError"
    by (simp add: try_checkAndAwardBadges_def andThen_def getUser_def firestore_def)
  then show "fst (checkAndAwardBadges userId s) = Inr []"
    by (cases "try_checkAndAwardBadges userId s")
       (auto simp: checkAndAwardBadges_def split: sum.splits)
next
  assume "\<exists>e. fst (try_checkAndAwardBadges userId s) = Inl e"
  then show "fst (checkAndAwardBadges userId s) = Inr []"
    by (cases "try_checkAndAwardBadges userId s")
       (auto simp: checkAndAwardBadges_def split: sum.splits)
next
  fix e
  show "fst (getUserRank userId s) \<noteq> Inl e"
    by (simp add: getUserRank_def resolve_def)
qed

theorem errors_returned_or_swallowed_witness:
  "rejected (store0\<lparr>faults := [True]\<rparr>) \<and>
   fst (awardPoints ''u1'' 100 ''challenge'' (store0\<lparr>faults := [True]\<rparr>)) = Inl PersistenceError \<and>
   fst (try_checkAndAwardBadges ''u1'' (store0\<lparr>faults := [True]\<rparr>)) = Inl PersistenceError \<and>
   fst (checkAndAwardBadges ''u1'' (store0\<lparr>faults := [True]\<rparr>)) = Inr [] \<and>
   \<not> rejected store0 \<and> users store0 ''u2'' = None \<and>
   fst (awardPoints ''u2'' 100 ''challenge'' store0) = Inl UserNotFound \<and>
   \<not> rejected (store0\<lparr>faults := [False, True]\<rparr>) \<and> users (store0\<lparr>faults := [False, True]\<rparr>) ''u1'' \<noteq> None \<and>
   rejected (tick (store0\<lparr>faults := [False, True]\<rparr>)) \<and>
   fst (awardPoints ''u1'' 100 ''challenge'' (store0\<lparr>faults := [False, True]\<rparr>)) = Inl PersistenceError \<and>
   (\<exists>e. fst (try_checkAndAwardBadges ''u1'' store1) = Inl e) \<and>
   fst (checkAndAwardBadges ''u1'' store1) = Inr []"
proof -
  have a: "rejected (store0\<lparr>faults := [True]\<rparr>)" by (simp add: rejected_def)
  have b: "\<not> rejected store0" "users store0 ''u2'' = None"
    by (simp_all add: rejected_def example_defs)
  have c: "\<not> rejected (store0\<lparr>faults := [False, True]\<rparr>)"
    "users (store0\<lparr>faults := [False, True]\<rparr>) ''u1'' \<noteq> None"
    "rejected (tick (store0\<lparr>faults := [False, True]\<rparr>))"
    by (simp_all add: rejected_def tick_def example_defs)
  have d: "\<exists>e. fst (try_checkAndAwardBadges ''u1'' store1) = Inl e"
    by (simp add: service_defs example_defs)
  from errors_returned_or_swallowed [of "store0\<lparr>faults := [True]\<rparr>" "''u1''" 100 "''challenge''"] a
  have first: "fst (awardPoints ''u1'' 100 ''challenge'' (store0\<lparr>faults := [True]\<rparr>)) = Inl PersistenceError"
    "fst (try_checkAndAwardBadges ''u1'' (store0\<lparr>faults := [True]\<rparr>)) = Inl PersistenceError"
    "fst (checkAndAwardBadges ''u1'' (store0\<lparr>faults := [True]\<rparr>)) = Inr []"
    by blast+
  from errors_returned_or_swallowed [of store0 "''u2''" 100 "''challenge''"] b
  have second: "fst (awardPoints ''u2'' 100 ''challenge'' store0) = Inl UserNotFound"
    by blast
  from errors_returned_or_swallowed [of "store0\<lparr>faults := [False, True]\<rparr>" "''u1''" 100 "''challenge''"] c
  have third: "fst (awardPoints ''u1'' 100 ''challenge'' (store0\<lparr>faults := [False, True]\<rparr>)) = Inl PersistenceError"
    by blast
  from errors_returned_or_swallowed [of store1 "''u1''"] d
  have fourth: "fst (checkAndAwardBadges ''u1'' store1) = Inr []"
    by blast
  from a b c d first second third fourth show ?thesis by blast
qed

text \<open>
  The claim as stated has every error returned to the caller. Here the storage rejects the
  lookup of Alice: the \<^verbatim>\<open>try\<close> block throws the storage's error, and the call returns
  the empty list, as it does for Alice when the storage answers and nothing is due.
\<close>

theorem checkAndAwardBadges_swallows_counterexample:
  "fst (try_checkAndAwardBadges ''u1'' (store0\<lparr>faults := [True]\<rparr>)) = Inl PersistenceError \<and>
   fst (checkAndAwardBadges ''u1'' (store0\<lparr>faults := [True]\<rparr>)) = Inr [] \<and>
   fst (checkAndAwardBadges ''u1'' store0) = Inr []"
  by (simp add: service_defs example_defs)

end
